theory Spec2Isabelle
  imports Main "HOL-Library.Sublist"
begin

section \<open>Data model of \<open>src/lib/tcw-auth.ts\<close>\<close>

text \<open>
  JavaScript strings are modelled as \<open>string\<close>; one \<open>char\<close> stands for one UTF-16
  code unit, so \<open>length\<close> is the source's \<open>.length\<close>.

  A thrown value is either an instance of the class \<open>TCWAuthError\<close> (message, code and
  the optional cause) or any other throwable, which the catch blocks tell apart with
  \<open>instanceof\<close>.
\<close>

datatype exn =
    TCWAuthError string string "exn option"
  | JSError string

fun is_TCWAuthError :: "exn \<Rightarrow> bool" where
  "is_TCWAuthError (TCWAuthError m c cs) = True"
| "is_TCWAuthError (JSError d) = False"

fun code_of :: "exn \<Rightarrow> string option" where
  "code_of (TCWAuthError m c cs) = Some c"
| "code_of (JSError d) = None"

text \<open>
  \<open>interface SimpleSiweMessage\<close>. The method \<open>prepareMessage()\<close> is called more than
  once on the same object (by \<open>performTCWWorldAuth\<close> for the text to sign, by
  \<open>initializeTCWSession\<close> for the session's message) and nothing in the interface makes
  two calls agree: its outcome (the rendered text, or the value it throws) is a function
  of the number of earlier calls.
\<close>

record SimpleSiweMessage =
  prepareMessage :: "nat \<Rightarrow> exn + string"
  msg_address :: string
  msg_statement :: "string option"
  msg_domain :: "string option"
  msg_uri :: "string option"
  msg_version :: "string option"
  msg_chainId :: "int option"
  msg_expirationTime :: "string option"
  msg_notBefore :: "string option"

text \<open>The placeholder object built in \<open>initializeTCWSession\<close> and \<open>interface TCWAuthSession\<close>.\<close>

record placeholder_session =
  initialized :: bool
  ph_address :: string
  timestamp :: int

record TCWAuthSession =
  auth_address :: string
  auth_signature :: string
  auth_message :: string
  tcwSession :: placeholder_session

text \<open>The object literal \<open>siweMessageConfig\<close> of \<open>generateSiweWithTCW\<close>.\<close>

record siwe_config =
  cfg_statement :: string
  cfg_domain :: string
  cfg_uri :: string
  cfg_version :: string
  cfg_chainId :: int
  cfg_expirationTime :: string
  cfg_notBefore :: string

text \<open>
  The session context \<open>tcw\<close> has type \<open>any\<close>. The code tests it for truthiness and
  calls its method \<open>generateSiweMessage\<close>: \<open>None\<close> is a falsy value (null, undefined),
  \<open>Some t\<close> a truthy one whose method call returns a message or throws (a missing
  method throws a TypeError, one of the \<open>JSError\<close> outcomes).
\<close>

record tcw_instance =
  generateSiweMessage :: "string \<Rightarrow> siwe_config \<Rightarrow> exn + SimpleSiweMessage"

text \<open>The argument and the \<open>finalPayload\<close> of \<open>MiniKit.commandsAsync.walletAuth\<close>;
  the two \<open>Date\<close> objects are the time values they were built from, in milliseconds
  (\<open>new Date(x)\<close> does not throw: a value out of range stands for the invalid \<open>Date\<close>
  the source hands on).\<close>

record wallet_auth_input =
  wa_nonce :: string
  wa_requestId :: string
  wa_expirationTime :: int
  wa_notBefore :: int
  wa_statement :: string

datatype final_payload =
    PayloadSuccess string
  | PayloadError

record minikit_user =
  walletAddress :: "string option"

record location =
  host :: string
  origin :: string

record sign_result =
  signature :: string

section \<open>The ambient environment\<close>

text \<open>
  Everything the module reads from outside itself: the global \<open>window\<close> (absent when
  \<open>typeof window === "undefined"\<close>), the \<open>MiniKit\<close> singleton, \<open>crypto.randomUUID\<close>
  (\<open>None\<close> when \<open>crypto\<close> or its method is missing), \<open>Math.random().toString(36)\<close>,
  \<open>Date.now()\<close> and \<open>Date.prototype.toISOString\<close>. What can answer differently from one
  call to the next (\<open>isInstalled\<close>, the random sources, the clock) takes the number of
  earlier calls as its argument. Clock readings are integers of milliseconds. The field
  \<open>toISOString\<close> is the text of a valid \<open>Date\<close>; the range test that makes
  \<open>new Date(x).toISOString()\<close> throw is \<open>date_toISOString\<close> below.
\<close>

record env =
  window :: "location option"
  isInstalled :: "nat \<Rightarrow> exn + bool"
  user :: "minikit_user option"
  walletAuth :: "wallet_auth_input \<Rightarrow> exn + final_payload"
  randomUUID :: "(nat \<Rightarrow> string) option"
  mathRandom36 :: "nat \<Rightarrow> string"
  dateNow :: "nat \<Rightarrow> int"
  toISOString :: "int \<Rightarrow> string"

datatype stage =
    S_getWalletAddress
  | S_generateSiweWithTCW
  | S_signSiweWithWorld
  | S_initializeTCWSession

text \<open>
  The run's transcript: entering and leaving each of the four exported stage functions,
  and every call that leaves the module. \<open>console.log\<close> is not recorded.
\<close>

datatype event =
    Enter stage
  | Return stage
  | Raise stage
  | CallIsInstalled
  | ReadUser
  | CallRandomUUID
  | CallMathRandom
  | CallDateNow
  | CallGenerateSiweMessage string siwe_config
  | CallWalletAuth wallet_auth_input "exn + final_payload"

record world =
  trace :: "event list"
  installed_calls :: nat
  random_draws :: nat
  clock_reads :: nat
  render_calls :: nat

definition emit :: "event \<Rightarrow> world \<Rightarrow> world" where
  "emit e w = w\<lparr>trace := trace w @ [e]\<rparr>"

definition call_isInstalled :: "env \<Rightarrow> world \<Rightarrow> (exn + bool) \<times> world" where
  "call_isInstalled en w =
     (isInstalled en (installed_calls w),
      emit CallIsInstalled (w\<lparr>installed_calls := Suc (installed_calls w)\<rparr>))"

definition date_now :: "env \<Rightarrow> world \<Rightarrow> int \<times> world" where
  "date_now en w =
     (dateNow en (clock_reads w), emit CallDateNow (w\<lparr>clock_reads := Suc (clock_reads w)\<rparr>))"

definition crypto_randomUUID :: "env \<Rightarrow> world \<Rightarrow> (exn + string) \<times> world" where
  "crypto_randomUUID en w =
     (case randomUUID en of
        None \<Rightarrow> (Inl (JSError ''crypto.randomUUID is not a function''), w)
      | Some f \<Rightarrow>
          (Inr (f (random_draws w)),
           emit CallRandomUUID (w\<lparr>random_draws := Suc (random_draws w)\<rparr>)))"

definition math_random36 :: "env \<Rightarrow> world \<Rightarrow> string \<times> world" where
  "math_random36 en w =
     (mathRandom36 en (random_draws w),
      emit CallMathRandom (w\<lparr>random_draws := Suc (random_draws w)\<rparr>))"

text \<open>\<open>siweMessage.prepareMessage()\<close>: one call, counted in the world.\<close>

definition call_prepareMessage :: "SimpleSiweMessage \<Rightarrow> world \<Rightarrow> (exn + string) \<times> world" where
  "call_prepareMessage siweMessage w =
     (prepareMessage siweMessage (render_calls w), w\<lparr>render_calls := Suc (render_calls w)\<rparr>)"

text \<open>
  \<open>new Date(x).toISOString()\<close>. A time value beyond 8.64e15 milliseconds on either side
  of the epoch makes an invalid \<open>Date\<close>, whose \<open>toISOString\<close> throws a RangeError.
\<close>

definition date_toISOString :: "env \<Rightarrow> int \<Rightarrow> exn + string" where
  "date_toISOString en x =
     (if \<bar>x\<bar> \<le> 8640000000000000 then Inr (toISOString en x)
      else Inl (JSError ''RangeError: Invalid time value''))"

section \<open>Catch blocks\<close>

text \<open>
  \<open>catch (error) { if (error instanceof TCWAuthError) throw error; throw new
  TCWAuthError(msg, code, error) }\<close>, the handler of \<open>getWalletAddress\<close>,
  \<open>signSiweWithWorld\<close>, \<open>generateSiweWithTCW\<close> and \<open>performTCWWorldAuth\<close>.
\<close>

fun rethrow_or_wrap :: "string \<Rightarrow> string \<Rightarrow> exn \<Rightarrow> exn" where
  "rethrow_or_wrap m c (TCWAuthError m' c' cs) = TCWAuthError m' c' cs"
| "rethrow_or_wrap m c (JSError d) = TCWAuthError m c (Some (JSError d))"

text \<open>\<open>catch (error) { throw new TCWAuthError(msg, code, error) }\<close>, the handler of
  \<open>initializeTCWSession\<close>: no \<open>instanceof\<close> test.\<close>

definition always_wrap :: "string \<Rightarrow> string \<Rightarrow> exn \<Rightarrow> exn" where
  "always_wrap m c e = TCWAuthError m c (Some e)"

text \<open>A stage function: its entry, its try block, its catch block, its exit.\<close>

definition run_stage ::
  "stage \<Rightarrow> (exn \<Rightarrow> exn) \<Rightarrow> (world \<Rightarrow> (exn + 'a) \<times> world) \<Rightarrow> world \<Rightarrow> (exn + 'a) \<times> world" where
  "run_stage s handler body w =
     (case body (emit (Enter s) w) of
        (Inl e, w') \<Rightarrow> (Inl (handler e), emit (Raise s) w')
      | (Inr v, w') \<Rightarrow> (Inr v, emit (Return s) w'))"

section \<open>getWalletAddress\<close>

definition getWalletAddress_try :: "env \<Rightarrow> world \<Rightarrow> (exn + string) \<times> world" where
  "getWalletAddress_try en w =
     (case call_isInstalled en w of
        (Inl e, w1) \<Rightarrow> (Inl e, w1)
      | (Inr installed, w1) \<Rightarrow>
          if \<not> installed then
            (Inl (TCWAuthError ''MiniKit is not installed'' ''MINIKIT_NOT_INSTALLED'' None), w1)
          else
            (let w2 = emit ReadUser w1 in
             case user en of
               None \<Rightarrow>
                 (Inl (TCWAuthError ''No wallet address available from MiniKit''
                         ''NO_WALLET_ADDRESS'' None), w2)
             | Some u \<Rightarrow>
                 (case walletAddress u of
                    None \<Rightarrow>
                      (Inl (TCWAuthError ''No wallet address available from MiniKit''
                              ''NO_WALLET_ADDRESS'' None), w2)
                  | Some a \<Rightarrow>
                      if a = [] then
                        (Inl (TCWAuthError ''No wallet address available from MiniKit''
                                ''NO_WALLET_ADDRESS'' None), w2)
                      else (Inr a, w2))))"

definition getWalletAddress :: "env \<Rightarrow> world \<Rightarrow> (exn + string) \<times> world" where
  "getWalletAddress en =
     run_stage S_getWalletAddress
       (rethrow_or_wrap ''Failed to get wallet address'' ''WALLET_ADDRESS_ERROR'')
       (getWalletAddress_try en)"

section \<open>signSiweWithWorld\<close>

definition signSiweWithWorld_try :: "env \<Rightarrow> string \<Rightarrow> world \<Rightarrow> (exn + sign_result) \<times> world" where
  "signSiweWithWorld_try en message w =
     (case call_isInstalled en w of
        (Inl e, w1) \<Rightarrow> (Inl e, w1)
      | (Inr installed, w1) \<Rightarrow>
          if \<not> installed then
            (Inl (TCWAuthError ''MiniKit is not installed'' ''MINIKIT_NOT_INSTALLED'' None), w1)
          else
            (case crypto_randomUUID en w1 of
               (Inl e, w2) \<Rightarrow> (Inl e, w2)
             | (Inr uuid, w2) \<Rightarrow>
                 (let (t1, w3) = date_now en w2;
                      (t2, w4) = date_now en w3;
                      req = \<lparr>wa_nonce = uuid,
                             wa_requestId = ''tcw-auth'',
                             wa_expirationTime = t1 + 24 * 60 * 60 * 1000,
                             wa_notBefore = t2 - 60 * 1000,
                             wa_statement = message\<rparr>;
                      res = walletAuth en req;
                      w5 = emit (CallWalletAuth req res) w4
                  in case res of
                       Inl e \<Rightarrow> (Inl e, w5)
                     | Inr PayloadError \<Rightarrow>
                         (Inl (TCWAuthError ''Failed to sign message with World''
                                 ''WORLD_SIGN_ERROR'' None), w5)
                     | Inr (PayloadSuccess sg) \<Rightarrow> (Inr \<lparr>signature = sg\<rparr>, w5))))"

definition signSiweWithWorld :: "env \<Rightarrow> string \<Rightarrow> world \<Rightarrow> (exn + sign_result) \<times> world" where
  "signSiweWithWorld en message =
     run_stage S_signSiweWithWorld
       (rethrow_or_wrap ''Failed to sign SIWE message with World'' ''WORLD_SIGN_ERROR'')
       (signSiweWithWorld_try en message)"

section \<open>initializeTCWSession\<close>

text \<open>The session context is a parameter the body never reads; the clock is read for the
  placeholder before \<open>prepareMessage()\<close> is called.\<close>

definition initializeTCWSession_try ::
  "env \<Rightarrow> tcw_instance option \<Rightarrow> SimpleSiweMessage \<Rightarrow> string \<Rightarrow> world
    \<Rightarrow> (exn + TCWAuthSession) \<times> world" where
  "initializeTCWSession_try en tcw siweMessage sg w =
     (let (now, w1) = date_now en w;
          session = \<lparr>initialized = True, ph_address = msg_address siweMessage, timestamp = now\<rparr>
      in case call_prepareMessage siweMessage w1 of
           (Inl e, w2) \<Rightarrow> (Inl e, w2)
         | (Inr text, w2) \<Rightarrow>
             (Inr \<lparr>auth_address = msg_address siweMessage,
                   auth_signature = sg,
                   auth_message = text,
                   tcwSession = session\<rparr>, w2))"

definition initializeTCWSession ::
  "env \<Rightarrow> tcw_instance option \<Rightarrow> SimpleSiweMessage \<Rightarrow> string \<Rightarrow> world
    \<Rightarrow> (exn + TCWAuthSession) \<times> world" where
  "initializeTCWSession en tcw siweMessage sg =
     run_stage S_initializeTCWSession
       (always_wrap ''Failed to initialize TCW session'' ''TCW_SESSION_INIT_ERROR'')
       (initializeTCWSession_try en tcw siweMessage sg)"

section \<open>generateSiweWithTCW\<close>

text \<open>\<open>String.prototype.startsWith\<close> and the test
  \<open>!address || !address.startsWith("0x") || address.length !== 42\<close>.\<close>

definition startsWith :: "string \<Rightarrow> string \<Rightarrow> bool" where
  "startsWith s p = (take (length p) s = p)"

definition address_rejected :: "string \<Rightarrow> bool" where
  "address_rejected address =
     (address = [] \<or> \<not> startsWith address ''0x'' \<or> length address \<noteq> 42)"

text \<open>\<open>crypto.randomUUID().slice(0, 8)\<close> when \<open>crypto.randomUUID\<close> is there,
  \<open>Math.random().toString(36).slice(2, 10)\<close> otherwise.\<close>

definition randomId :: "env \<Rightarrow> world \<Rightarrow> string \<times> world" where
  "randomId en w =
     (case randomUUID en of
        Some f \<Rightarrow>
          (take 8 (f (random_draws w)),
           emit CallRandomUUID (w\<lparr>random_draws := Suc (random_draws w)\<rparr>))
      | None \<Rightarrow> (let (r, w1) = math_random36 en w in (take 8 (drop 2 r), w1)))"

text \<open>
  The object literal \<open>siweMessageConfig\<close>, evaluated field by field: the clock is read
  and the expiration time rendered first, then the clock is read again and the not-before
  time rendered. A RangeError of either \<open>toISOString()\<close> leaves the literal, and the try
  block, at that point.
\<close>

definition siweMessageConfig :: "env \<Rightarrow> location \<Rightarrow> world \<Rightarrow> (exn + siwe_config) \<times> world" where
  "siweMessageConfig en loc w =
     (let (t1, w1) = date_now en w in
      case date_toISOString en (t1 + 24 * 60 * 60 * 1000) of
        Inl e \<Rightarrow> (Inl e, w1)
      | Inr expiration \<Rightarrow>
          (let (t2, w2) = date_now en w1 in
           case date_toISOString en (t2 - 60 * 1000) of
             Inl e \<Rightarrow> (Inl e, w2)
           | Inr notBefore \<Rightarrow>
               (Inr \<lparr>cfg_statement = ''Sign in to World Mini App with TinyCloud'',
                     cfg_domain = host loc,
                     cfg_uri = origin loc,
                     cfg_version = ''1'',
                     cfg_chainId = 1,
                     cfg_expirationTime = expiration,
                     cfg_notBefore = notBefore\<rparr>, w2)))"

definition generateSiweWithTCW_try ::
  "env \<Rightarrow> tcw_instance option \<Rightarrow> string \<Rightarrow> world \<Rightarrow> (exn + SimpleSiweMessage) \<times> world" where
  "generateSiweWithTCW_try en tcw address w =
     (case tcw of
        None \<Rightarrow>
          (Inl (TCWAuthError ''TCW instance is not available'' ''TCW_NOT_INITIALIZED'' None), w)
      | Some t \<Rightarrow>
          if address_rejected address then
            (Inl (TCWAuthError ''Invalid Ethereum address format'' ''INVALID_ADDRESS'' None), w)
          else
            (case window en of
               None \<Rightarrow>
                 (Inl (TCWAuthError ''TCW authentication must be called in browser environment''
                         ''NOT_BROWSER_ENVIRONMENT'' None), w)
             | Some loc \<Rightarrow>
                 (let (rid, w1) = randomId en w in
                  case siweMessageConfig en loc w1 of
                    (Inl e, w3) \<Rightarrow> (Inl e, w3)
                  | (Inr config, w3) \<Rightarrow>
                      (generateSiweMessage t address config,
                       emit (CallGenerateSiweMessage address config) w3))))"

definition generateSiweWithTCW ::
  "env \<Rightarrow> tcw_instance option \<Rightarrow> string \<Rightarrow> world \<Rightarrow> (exn + SimpleSiweMessage) \<times> world" where
  "generateSiweWithTCW en tcw address =
     run_stage S_generateSiweWithTCW
       (rethrow_or_wrap ''Failed to generate SIWE message with TCW'' ''SIWE_GENERATION_ERROR'')
       (generateSiweWithTCW_try en tcw address)"

section \<open>performTCWWorldAuth\<close>

definition performTCWWorldAuth_try ::
  "env \<Rightarrow> tcw_instance option \<Rightarrow> world \<Rightarrow> (exn + TCWAuthSession) \<times> world" where
  "performTCWWorldAuth_try en tcw w =
     (case window en of
        None \<Rightarrow>
          (Inl (TCWAuthError
                  ''TCW + World authentication can only be performed in browser environment''
                  ''NOT_BROWSER_ENVIRONMENT'' None), w)
      | Some loc \<Rightarrow>
          (case getWalletAddress en w of
             (Inl e, w1) \<Rightarrow> (Inl e, w1)
           | (Inr address, w1) \<Rightarrow>
               (case generateSiweWithTCW en tcw address w1 of
                  (Inl e, w2) \<Rightarrow> (Inl e, w2)
                | (Inr siweMessage, w2) \<Rightarrow>
                    (case call_prepareMessage siweMessage w2 of
                       (Inl e, w3) \<Rightarrow> (Inl e, w3)
                     | (Inr text, w3) \<Rightarrow>
                         (case signSiweWithWorld en text w3 of
                            (Inl e, w4) \<Rightarrow> (Inl e, w4)
                          | (Inr signResult, w4) \<Rightarrow>
                              initializeTCWSession en tcw siweMessage
                                (signature signResult) w4)))))"

definition performTCWWorldAuth ::
  "env \<Rightarrow> tcw_instance option \<Rightarrow> world \<Rightarrow> (exn + TCWAuthSession) \<times> world" where
  "performTCWWorldAuth en tcw w =
     (case performTCWWorldAuth_try en tcw w of
        (Inl e, w') \<Rightarrow>
          (Inl (rethrow_or_wrap ''TCW + World authentication flow failed'' ''AUTH_FLOW_ERROR'' e),
           w')
      | (Inr session, w') \<Rightarrow> (Inr session, w'))"

section \<open>Reading a transcript\<close>

fun stage_entries :: "event list \<Rightarrow> stage list" where
  "stage_entries [] = []"
| "stage_entries (Enter s # es) = s # stage_entries es"
| "stage_entries (e # es) = stage_entries es"

fun session_layer_calls :: "event list \<Rightarrow> (string \<times> siwe_config) list" where
  "session_layer_calls [] = []"
| "session_layer_calls (CallGenerateSiweMessage a c # es) = (a, c) # session_layer_calls es"
| "session_layer_calls (e # es) = session_layer_calls es"

fun wallet_auth_calls :: "event list \<Rightarrow> (wallet_auth_input \<times> (exn + final_payload)) list" where
  "wallet_auth_calls [] = []"
| "wallet_auth_calls (CallWalletAuth r q # es) = (r, q) # wallet_auth_calls es"
| "wallet_auth_calls (e # es) = wallet_auth_calls es"

definition new_events :: "world \<Rightarrow> world \<Rightarrow> event list" where
  "new_events w w' = drop (length (trace w)) (trace w')"

definition pipeline_order :: "stage list" where
  "pipeline_order =
     [S_getWalletAddress, S_generateSiweWithTCW, S_signSiweWithWorld, S_initializeTCWSession]"

fun stage_index :: "stage \<Rightarrow> nat" where
  "stage_index S_getWalletAddress = 0"
| "stage_index S_generateSiweWithTCW = 1"
| "stage_index S_signSiweWithWorld = 2"
| "stage_index S_initializeTCWSession = 3"

fun is_stage_event :: "event \<Rightarrow> bool" where
  "is_stage_event (Enter s) = True"
| "is_stage_event (Return s) = True"
| "is_stage_event (Raise s) = True"
| "is_stage_event e = False"

fun is_wallet_auth :: "event \<Rightarrow> bool" where
  "is_wallet_auth (CallWalletAuth r q) = True"
| "is_wallet_auth e = False"

definition quiet :: "event list \<Rightarrow> bool" where
  "quiet es = list_all (\<lambda>e. \<not> is_stage_event e) es"

definition no_wallet_auth :: "event list \<Rightarrow> bool" where
  "no_wallet_auth es = list_all (\<lambda>e. \<not> is_wallet_auth e) es"

fun stage_exit :: "stage \<Rightarrow> exn + 'a \<Rightarrow> event" where
  "stage_exit s (Inl e) = Raise s"
| "stage_exit s (Inr v) = Return s"

definition failure_code :: "exn + 'a \<Rightarrow> string option" where
  "failure_code r = (case r of Inl e \<Rightarrow> code_of e | Inr v \<Rightarrow> None)"

section \<open>The address format as the specification words it\<close>

text \<open>
  For comparison with \<open>address_rejected\<close>: a fixed prefix \<open>0x\<close>, a fixed length of 42
  and hexadecimal digits after the prefix.
\<close>

definition is_hex_digit :: "char \<Rightarrow> bool" where
  "is_hex_digit c = (c \<in> set ''0123456789abcdefABCDEF'')"

definition spec_address_format :: "string \<Rightarrow> bool" where
  "spec_address_format a =
     (length a = 42 \<and> take 2 a = ''0x'' \<and> list_all is_hex_digit (drop 2 a))"

section \<open>Concrete runs\<close>

definition demo_location :: location where
  "demo_location = \<lparr>host = ''app.example'', origin = ''https://app.example''\<rparr>"

definition demo_address :: string where
  "demo_address = ''0xAbC123000000000000000000000000000000dEaD''"

definition nonhex_address :: string where
  "nonhex_address = ''0xzzzzzzzzzzzzzzzzzzzzzzzzzzzzzzzzzzzzzzzz''"

definition wrong_prefix_address :: string where
  "wrong_prefix_address = ''1xAbC123000000000000000000000000000000dEaD''"

definition demo_message :: "exn + string \<Rightarrow> string \<Rightarrow> SimpleSiweMessage" where
  "demo_message rendering a =
     \<lparr>prepareMessage = (\<lambda>k. rendering), msg_address = a, msg_statement = None, msg_domain = None,
      msg_uri = None, msg_version = None, msg_chainId = None, msg_expirationTime = None,
      msg_notBefore = None\<rparr>"

definition unrenderable_message :: SimpleSiweMessage where
  "unrenderable_message =
     demo_message (Inl (TCWAuthError ''render refused'' ''INVALID_ADDRESS'' None)) demo_address"

definition two_text_message :: SimpleSiweMessage where
  "two_text_message =
     (demo_message (Inr ''T2'') demo_address)
       \<lparr>prepareMessage := (\<lambda>k. if k = 0 then Inr ''T1'' else Inr ''T2'')\<rparr>"

definition two_text_tcw :: tcw_instance where
  "two_text_tcw = \<lparr>generateSiweMessage = (\<lambda>a c. Inr two_text_message)\<rparr>"

definition demo_tcw :: tcw_instance where
  "demo_tcw = \<lparr>generateSiweMessage = (\<lambda>a c. Inr (demo_message (Inr ''T'') a))\<rparr>"

definition demo_iso :: "int \<Rightarrow> string" where
  "demo_iso t =
     (if t = 1700086400000 then ''2023-11-15T22:13:20.000Z''
      else if t = 1699999940001 then ''2023-11-14T22:12:20.001Z''
      else ''1970-01-01T00:00:00.000Z'')"

definition demo_config :: siwe_config where
  "demo_config =
     \<lparr>cfg_statement = ''Sign in to World Mini App with TinyCloud'',
      cfg_domain = ''app.example'',
      cfg_uri = ''https://app.example'',
      cfg_version = ''1'',
      cfg_chainId = 1,
      cfg_expirationTime = ''2023-11-15T22:13:20.000Z'',
      cfg_notBefore = ''2023-11-14T22:12:20.001Z''\<rparr>"

definition demo_request :: wallet_auth_input where
  "demo_request =
     \<lparr>wa_nonce = ''3f2a9c1e-7b4d-4e8a-9c0f-5d6e7f8a9b0c'',
      wa_requestId = ''tcw-auth'',
      wa_expirationTime = 1700086400002,
      wa_notBefore = 1699999940003,
      wa_statement = ''T''\<rparr>"

definition demo_session :: "int \<Rightarrow> TCWAuthSession" where
  "demo_session ts =
     \<lparr>auth_address = demo_address, auth_signature = ''0xsig'', auth_message = ''T'',
      tcwSession = \<lparr>initialized = True, ph_address = demo_address, timestamp = ts\<rparr>\<rparr>"

definition demo_env :: env where
  "demo_env =
     \<lparr>window = Some demo_location,
      isInstalled = (\<lambda>n. Inr True),
      user = Some \<lparr>walletAddress = Some demo_address\<rparr>,
      walletAuth = (\<lambda>req. Inr (PayloadSuccess ''0xsig'')),
      randomUUID = Some (\<lambda>n. ''3f2a9c1e-7b4d-4e8a-9c0f-5d6e7f8a9b0c''),
      mathRandom36 = (\<lambda>n. ''0.k3j9x2m7q1w''),
      dateNow = (\<lambda>n. 1700000000000 + int n),
      toISOString = demo_iso\<rparr>"

definition text_signing_env :: env where
  "text_signing_env =
     demo_env\<lparr>walletAuth := (\<lambda>req. Inr (PayloadSuccess (''sig:'' @ wa_statement req)))\<rparr>"

definition late_clock_env :: env where
  "late_clock_env = demo_env\<lparr>dateNow := (\<lambda>n. 8640000000000000)\<rparr>"

definition demo_env_no_window :: env where
  "demo_env_no_window = demo_env\<lparr>window := None\<rparr>"

definition demo_env_not_installed :: env where
  "demo_env_not_installed = demo_env\<lparr>isInstalled := (\<lambda>n. Inr False)\<rparr>"

definition demo_env_sign_error :: env where
  "demo_env_sign_error = demo_env\<lparr>walletAuth := (\<lambda>req. Inr PayloadError)\<rparr>"

definition demo_env_sign_throws :: env where
  "demo_env_sign_throws =
     demo_env\<lparr>walletAuth := (\<lambda>req. Inl (JSError ''walletAuth rejected''))\<rparr>"

definition fresh_world :: world where
  "fresh_world =
     \<lparr>trace = [], installed_calls = 0, random_draws = 0, clock_reads = 0, render_calls = 0\<rparr>"

section \<open>Facts about transcripts\<close>

lemmas stage_unfolds =
  getWalletAddress_def getWalletAddress_try_def signSiweWithWorld_def signSiweWithWorld_try_def
  generateSiweWithTCW_def generateSiweWithTCW_try_def initializeTCWSession_def
  initializeTCWSession_try_def performTCWWorldAuth_def performTCWWorldAuth_try_def
  run_stage_def call_isInstalled_def crypto_randomUUID_def date_now_def randomId_def
  math_random36_def siweMessageConfig_def address_rejected_def startsWith_def always_wrap_def
  call_prepareMessage_def date_toISOString_def emit_def new_events_def Let_def

lemmas demo_unfolds =
  demo_location_def demo_address_def demo_message_def demo_tcw_def demo_iso_def demo_env_def
  demo_config_def demo_request_def demo_session_def fresh_world_def demo_env_no_window_def
  demo_env_not_installed_def demo_env_sign_error_def demo_env_sign_throws_def
  unrenderable_message_def nonhex_address_def wrong_prefix_address_def two_text_message_def
  two_text_tcw_def text_signing_env_def late_clock_env_def

lemma trace_emit [simp]: "trace (emit e w) = trace w @ [e]"
  by (simp add: emit_def)

lemma trace_call_prepareMessage [simp]: "trace (snd (call_prepareMessage m w)) = trace w"
  by (simp add: call_prepareMessage_def)

lemma stage_entries_append [simp]:
  "stage_entries (xs @ ys) = stage_entries xs @ stage_entries ys"
  by (induction xs rule: stage_entries.induct) simp_all

lemma quiet_Nil [simp]: "quiet []"
  by (simp add: quiet_def)

lemma quiet_Cons [simp]: "quiet (e # es) = (\<not> is_stage_event e \<and> quiet es)"
  by (simp add: quiet_def)

lemma quiet_append [simp]: "quiet (xs @ ys) = (quiet xs \<and> quiet ys)"
  by (simp add: quiet_def)

lemma quiet_stage_entries [simp]: "quiet es \<Longrightarrow> stage_entries es = []"
  by (induction es rule: stage_entries.induct) simp_all

lemma quiet_no_stage_event: "quiet es \<Longrightarrow> e \<in> set es \<Longrightarrow> \<not> is_stage_event e"
  by (simp add: quiet_def list_all_iff)

lemma quiet_no_Raise [simp]: "quiet es \<Longrightarrow> Raise s \<notin> set es"
  using quiet_no_stage_event by fastforce

lemma quiet_no_Enter [simp]: "quiet es \<Longrightarrow> Enter s \<notin> set es"
  using quiet_no_stage_event by fastforce

lemma no_wallet_auth_Nil [simp]: "no_wallet_auth []"
  by (simp add: no_wallet_auth_def)

lemma no_wallet_auth_Cons [simp]:
  "no_wallet_auth (e # es) = (\<not> is_wallet_auth e \<and> no_wallet_auth es)"
  by (simp add: no_wallet_auth_def)

lemma no_wallet_auth_mem [simp]: "no_wallet_auth es \<Longrightarrow> CallWalletAuth r q \<notin> set es"
  by (auto simp: no_wallet_auth_def list_all_iff)

lemma new_events_append [simp]: "trace w' = trace w @ es \<Longrightarrow> new_events w w' = es"
  by (simp add: new_events_def)

lemma stage_exit_simps [simp]:
  "stage_exit s r = Raise s' \<longleftrightarrow> isl r \<and> s = s'"
  "Raise s' = stage_exit s r \<longleftrightarrow> isl r \<and> s = s'"
  "stage_exit s r \<noteq> Enter s'"
  "Enter s' \<noteq> stage_exit s r"
  "stage_exit s r \<noteq> CallWalletAuth q p"
  "CallWalletAuth q p \<noteq> stage_exit s r"
  "stage_entries [stage_exit s r] = []"
  by (cases r; auto)+

lemma isl_run_stage [simp]:
  "isl (fst (run_stage s h body w)) = isl (fst (body (emit (Enter s) w)))"
  by (cases "body (emit (Enter s) w)"; cases "fst (body (emit (Enter s) w))")
     (auto simp: run_stage_def)

lemma fst_run_stage_Inl:
  "fst (body (emit (Enter s) w)) = Inl x \<Longrightarrow> fst (run_stage s h body w) = Inl (h x)"
  by (cases "body (emit (Enter s) w)") (simp add: run_stage_def)

text \<open>What a stage function adds to the transcript: its entry, the calls of its try block,
  its exit.\<close>

lemma run_stage_events:
  assumes "\<And>w0. \<exists>mid. trace (snd (body w0)) = trace w0 @ mid \<and> quiet mid \<and> P (fst (body w0)) mid"
  shows "\<exists>mid. trace (snd (run_stage s h body w)) =
           trace w @ Enter s # mid @ [stage_exit s (fst (run_stage s h body w))]
         \<and> quiet mid \<and> P (fst (body (emit (Enter s) w))) mid"
proof -
  obtain mid where m: "trace (snd (body (emit (Enter s) w))) = trace (emit (Enter s) w) @ mid"
     "quiet mid" "P (fst (body (emit (Enter s) w))) mid"
    using assms by blast
  show ?thesis
    using m by (cases "body (emit (Enter s) w)"; cases "fst (body (emit (Enter s) w))")
      (auto simp: run_stage_def)
qed

lemma getWalletAddress_try_events:
  "\<exists>mid. trace (snd (getWalletAddress_try en w)) = trace w @ mid \<and> quiet mid
     \<and> no_wallet_auth mid"
  by (auto simp: getWalletAddress_try_def call_isInstalled_def Let_def
      split: sum.splits option.splits)

lemma generateSiweWithTCW_try_events:
  "\<exists>mid. trace (snd (generateSiweWithTCW_try en tcw a w)) = trace w @ mid \<and> quiet mid
     \<and> no_wallet_auth mid"
  by (auto simp: generateSiweWithTCW_try_def randomId_def math_random36_def date_now_def Let_def
        siweMessageConfig_def
      split: sum.splits option.splits)

lemma signSiweWithWorld_try_events:
  "\<exists>mid. trace (snd (signSiweWithWorld_try en m w)) = trace w @ mid \<and> quiet mid
     \<and> ((\<exists>req. CallWalletAuth req (Inr PayloadError) \<in> set mid) \<longrightarrow>
          isl (fst (signSiweWithWorld_try en m w)))"
  by (auto simp: signSiweWithWorld_try_def call_isInstalled_def crypto_randomUUID_def
        date_now_def Let_def
      split: sum.splits option.splits final_payload.splits)

lemma initializeTCWSession_try_events:
  "\<exists>mid. trace (snd (initializeTCWSession_try en tcw m sg w)) = trace w @ mid \<and> quiet mid
     \<and> no_wallet_auth mid"
  by (auto simp: initializeTCWSession_try_def date_now_def call_prepareMessage_def Let_def
      split: sum.splits option.splits)

lemma getWalletAddress_events:
  "\<exists>mid. trace (snd (getWalletAddress en w)) =
      trace w @ Enter S_getWalletAddress # mid @
        [stage_exit S_getWalletAddress (fst (getWalletAddress en w))]
    \<and> quiet mid \<and> no_wallet_auth mid"
  unfolding getWalletAddress_def
  by (rule run_stage_events) (rule getWalletAddress_try_events)

lemma generateSiweWithTCW_events:
  "\<exists>mid. trace (snd (generateSiweWithTCW en tcw a w)) =
      trace w @ Enter S_generateSiweWithTCW # mid @
        [stage_exit S_generateSiweWithTCW (fst (generateSiweWithTCW en tcw a w))]
    \<and> quiet mid \<and> no_wallet_auth mid"
  unfolding generateSiweWithTCW_def
  by (rule run_stage_events) (rule generateSiweWithTCW_try_events)

lemma initializeTCWSession_events:
  "\<exists>mid. trace (snd (initializeTCWSession en tcw m sg w)) =
      trace w @ Enter S_initializeTCWSession # mid @
        [stage_exit S_initializeTCWSession (fst (initializeTCWSession en tcw m sg w))]
    \<and> quiet mid \<and> no_wallet_auth mid"
  unfolding initializeTCWSession_def
  by (rule run_stage_events) (rule initializeTCWSession_try_events)

lemma signSiweWithWorld_events:
  "\<exists>mid. trace (snd (signSiweWithWorld en m w)) =
      trace w @ Enter S_signSiweWithWorld # mid @
        [stage_exit S_signSiweWithWorld (fst (signSiweWithWorld en m w))]
    \<and> quiet mid
    \<and> ((\<exists>req. CallWalletAuth req (Inr PayloadError) \<in> set mid) \<longrightarrow>
          isl (fst (signSiweWithWorld en m w)))"
proof -
  have "\<exists>mid. trace (snd (signSiweWithWorld en m w)) =
      trace w @ Enter S_signSiweWithWorld # mid @
        [stage_exit S_signSiweWithWorld (fst (signSiweWithWorld en m w))]
    \<and> quiet mid
    \<and> ((\<exists>req. CallWalletAuth req (Inr PayloadError) \<in> set mid) \<longrightarrow>
          isl (fst (signSiweWithWorld_try en m (emit (Enter S_signSiweWithWorld) w))))"
    unfolding signSiweWithWorld_def
    by (rule run_stage_events
          [where P = "\<lambda>r mid. (\<exists>req. CallWalletAuth req (Inr PayloadError) \<in> set mid) \<longrightarrow> isl r"])
       (rule signSiweWithWorld_try_events)
  then show ?thesis by (simp add: signSiweWithWorld_def)
qed

lemma getWalletAddress_extends: "\<exists>es. trace (snd (getWalletAddress en w)) = trace w @ es"
  using getWalletAddress_events [of en w] by auto

lemma generateSiweWithTCW_extends:
  "\<exists>es. trace (snd (generateSiweWithTCW en tcw a w)) = trace w @ es"
  using generateSiweWithTCW_events [of en tcw a w] by auto

lemma signSiweWithWorld_extends: "\<exists>es. trace (snd (signSiweWithWorld en m w)) = trace w @ es"
  using signSiweWithWorld_events [of en m w] by auto

lemma initializeTCWSession_extends:
  "\<exists>es. trace (snd (initializeTCWSession en tcw m sg w)) = trace w @ es"
  using initializeTCWSession_events [of en tcw m sg w] by auto

section \<open>Three evaluated runs\<close>

lemma trace_fresh_world [simp]: "trace fresh_world = []"
  by (simp add: fresh_world_def)

lemma demo_pipeline_result:
  "performTCWWorldAuth demo_env (Some demo_tcw) fresh_world =
     (Inr (demo_session 1700000000004),
      \<lparr>trace =
         [Enter S_getWalletAddress, CallIsInstalled, ReadUser, Return S_getWalletAddress,
          Enter S_generateSiweWithTCW, CallRandomUUID, CallDateNow, CallDateNow,
          CallGenerateSiweMessage demo_address demo_config,
          Return S_generateSiweWithTCW,
          Enter S_signSiweWithWorld, CallIsInstalled, CallRandomUUID, CallDateNow, CallDateNow,
          CallWalletAuth demo_request (Inr (PayloadSuccess ''0xsig'')),
          Return S_signSiweWithWorld,
          Enter S_initializeTCWSession, CallDateNow, Return S_initializeTCWSession],
       installed_calls = 2, random_draws = 2, clock_reads = 5, render_calls = 2\<rparr>)"
  by (simp add: stage_unfolds demo_unfolds)

lemma demo_not_installed_result:
  "performTCWWorldAuth demo_env_not_installed (Some demo_tcw) fresh_world =
     (Inl (TCWAuthError ''MiniKit is not installed'' ''MINIKIT_NOT_INSTALLED'' None),
      \<lparr>trace = [Enter S_getWalletAddress, CallIsInstalled, Raise S_getWalletAddress],
       installed_calls = 1, random_draws = 0, clock_reads = 0, render_calls = 0\<rparr>)"
  by (simp add: stage_unfolds demo_unfolds)

lemma demo_sign_error_result:
  "performTCWWorldAuth demo_env_sign_error (Some demo_tcw) fresh_world =
     (Inl (TCWAuthError ''Failed to sign message with World'' ''WORLD_SIGN_ERROR'' None),
      \<lparr>trace =
         [Enter S_getWalletAddress, CallIsInstalled, ReadUser, Return S_getWalletAddress,
          Enter S_generateSiweWithTCW, CallRandomUUID, CallDateNow, CallDateNow,
          CallGenerateSiweMessage demo_address demo_config,
          Return S_generateSiweWithTCW,
          Enter S_signSiweWithWorld, CallIsInstalled, CallRandomUUID, CallDateNow, CallDateNow,
          CallWalletAuth demo_request (Inr PayloadError),
          Raise S_signSiweWithWorld],
       installed_calls = 2, random_draws = 2, clock_reads = 4, render_calls = 1\<rparr>)"
  by (simp add: stage_unfolds demo_unfolds)

section \<open>The pipeline's stage order\<close>

text \<open>
  C1. In every run of \<open>performTCWWorldAuth\<close> the stage functions entered are an initial
  segment of getWalletAddress, generateSiweWithTCW, signSiweWithWorld,
  initializeTCWSession, in that order and each at most once. A stage that raises is the last
  one entered, and the run then fails; a run that succeeds has entered all four. In
  particular, when getWalletAddress fails no other stage is entered, and when the host
  wallet answers the signing request with the error status, initializeTCWSession is never
  entered.
\<close>

theorem performTCWWorldAuth_stage_order:
  "(let run = performTCWWorldAuth en tcw w; ev = new_events w (snd run) in
      prefix (stage_entries ev) pipeline_order
    \<and> distinct (stage_entries ev)
    \<and> (\<forall>s. Raise s \<in> set ev \<longrightarrow>
          stage_entries ev = take (Suc (stage_index s)) pipeline_order \<and> isl (fst run))
    \<and> (\<not> isl (fst run) \<longrightarrow> stage_entries ev = pipeline_order)
    \<and> (window en \<noteq> None \<and> isl (fst (getWalletAddress en w)) \<longrightarrow>
          stage_entries ev = [S_getWalletAddress])
    \<and> (\<forall>req. CallWalletAuth req (Inr PayloadError) \<in> set ev \<longrightarrow>
          Enter S_initializeTCWSession \<notin> set ev))"
proof (cases "window en")
  case None
  then have "performTCWWorldAuth en tcw w =
      (Inl (TCWAuthError
              ''TCW + World authentication can only be performed in browser environment''
              ''NOT_BROWSER_ENVIRONMENT'' None), w)"
    by (simp add: performTCWWorldAuth_def performTCWWorldAuth_try_def)
  then show ?thesis
    using None by (simp add: new_events_def Let_def)
next
  case (Some loc)
  obtain r1 w1 where g1: "getWalletAddress en w = (r1, w1)"
    by (cases "getWalletAddress en w")
  obtain m1 where t1:
    "trace w1 = trace w @ Enter S_getWalletAddress # m1 @ [stage_exit S_getWalletAddress r1]"
    "quiet m1" "no_wallet_auth m1"
    using getWalletAddress_events [of en w] g1 by auto
  show ?thesis
  proof (cases r1)
    case (Inl e1)
    then have "snd (performTCWWorldAuth en tcw w) = w1"
        "isl (fst (performTCWWorldAuth en tcw w))"
      using Some g1 by (simp_all add: performTCWWorldAuth_def performTCWWorldAuth_try_def)
    then show ?thesis
      using t1 Inl g1 by (simp add: Let_def pipeline_order_def)
  next
    case (Inr address)
    obtain r2 w2 where g2: "generateSiweWithTCW en tcw address w1 = (r2, w2)"
      by (cases "generateSiweWithTCW en tcw address w1")
    obtain m2 where t2:
      "trace w2 =
         trace w1 @ Enter S_generateSiweWithTCW # m2 @ [stage_exit S_generateSiweWithTCW r2]"
      "quiet m2" "no_wallet_auth m2"
      using generateSiweWithTCW_events [of en tcw address w1] g2 by auto
    show ?thesis
    proof (cases r2)
      case (Inl e2)
      then have "snd (performTCWWorldAuth en tcw w) = w2"
          "isl (fst (performTCWWorldAuth en tcw w))"
        using Some g1 g2 Inr
        by (simp_all add: performTCWWorldAuth_def performTCWWorldAuth_try_def)
      then show ?thesis
        using t1 t2 Inl Inr g1 by (simp add: Let_def pipeline_order_def)
    next
      case siwe: (Inr siweMessage)
      obtain rr w2' where gp: "call_prepareMessage siweMessage w2 = (rr, w2')"
        by (cases "call_prepareMessage siweMessage w2")
      have tp: "trace w2' = trace w2"
        using trace_call_prepareMessage [of siweMessage w2] gp by simp
      show ?thesis
      proof (cases rr)
        case (Inl e)
        then have "snd (performTCWWorldAuth en tcw w) = w2'"
            "isl (fst (performTCWWorldAuth en tcw w))"
          using Some g1 g2 gp Inr siwe
          by (simp_all add: performTCWWorldAuth_def performTCWWorldAuth_try_def)
        then show ?thesis
          using t1 t2 tp siwe Inr g1 by (simp add: Let_def pipeline_order_def)
      next
        case rendered: (Inr rendered)
        obtain r3 w3 where g3: "signSiweWithWorld en rendered w2' = (r3, w3)"
          by (cases "signSiweWithWorld en rendered w2'")
        obtain m3 where t3:
          "trace w3 =
             trace w2 @ Enter S_signSiweWithWorld # m3 @ [stage_exit S_signSiweWithWorld r3]"
          "quiet m3" "(\<exists>req. CallWalletAuth req (Inr PayloadError) \<in> set m3) \<longrightarrow> isl r3"
          using signSiweWithWorld_events [of en rendered w2'] g3 tp by auto
        show ?thesis
        proof (cases r3)
          case (Inl e3)
          then have "snd (performTCWWorldAuth en tcw w) = w3"
              "isl (fst (performTCWWorldAuth en tcw w))"
            using Some g1 g2 gp g3 Inr siwe rendered
            by (simp_all add: performTCWWorldAuth_def performTCWWorldAuth_try_def)
          then show ?thesis
            using t1 t2 t3 Inl siwe Inr g1 by (simp add: Let_def pipeline_order_def)
        next
          case sig: (Inr signResult)
          obtain r4 w4 where g4:
            "initializeTCWSession en tcw siweMessage (signature signResult) w3 = (r4, w4)"
            by (cases "initializeTCWSession en tcw siweMessage (signature signResult) w3")
          obtain m4 where t4:
            "trace w4 =
               trace w3 @ Enter S_initializeTCWSession # m4
                 @ [stage_exit S_initializeTCWSession r4]"
            "quiet m4" "no_wallet_auth m4"
            using initializeTCWSession_events [of en tcw siweMessage "signature signResult" w3] g4
            by auto
          have "snd (performTCWWorldAuth en tcw w) = w4"
               "isl (fst (performTCWWorldAuth en tcw w)) = isl r4"
            using Some g1 g2 gp g3 g4 Inr siwe rendered sig
            by (cases r4; simp add: performTCWWorldAuth_def performTCWWorldAuth_try_def)+
          then show ?thesis
            using t1 t2 t3 t4 sig siwe Inr g1 by (auto simp add: Let_def pipeline_order_def)
        qed
      qed
    qed
  qed
qed

theorem performTCWWorldAuth_stage_order_witness:
  "stage_entries
     (new_events fresh_world (snd (performTCWWorldAuth demo_env (Some demo_tcw) fresh_world))) =
     pipeline_order
   \<and> stage_entries
       (new_events fresh_world
          (snd (performTCWWorldAuth demo_env_not_installed (Some demo_tcw) fresh_world))) =
     [S_getWalletAddress]
   \<and> Enter S_initializeTCWSession \<notin>
       set (new_events fresh_world
              (snd (performTCWWorldAuth demo_env_sign_error (Some demo_tcw) fresh_world)))"
proof -
  have a: "\<not> isl (fst (performTCWWorldAuth demo_env (Some demo_tcw) fresh_world))"
    by (simp add: demo_pipeline_result)
  have b: "window demo_env_not_installed \<noteq> None"
    "isl (fst (getWalletAddress demo_env_not_installed fresh_world))"
    by (simp_all add: stage_unfolds demo_unfolds)
  have c: "CallWalletAuth demo_request (Inr PayloadError) \<in>
      set (new_events fresh_world
             (snd (performTCWWorldAuth demo_env_sign_error (Some demo_tcw) fresh_world)))"
    by (simp add: demo_sign_error_result new_events_def)
  note ok = performTCWWorldAuth_stage_order
      [of demo_env "Some demo_tcw" fresh_world, unfolded Let_def]
  note absent = performTCWWorldAuth_stage_order
      [of demo_env_not_installed "Some demo_tcw" fresh_world, unfolded Let_def]
  note refused = performTCWWorldAuth_stage_order
      [of demo_env_sign_error "Some demo_tcw" fresh_world, unfolded Let_def]
  have "stage_entries
     (new_events fresh_world (snd (performTCWWorldAuth demo_env (Some demo_tcw) fresh_world))) =
     pipeline_order"
    using ok a by blast
  moreover have "stage_entries
       (new_events fresh_world
          (snd (performTCWWorldAuth demo_env_not_installed (Some demo_tcw) fresh_world))) =
     [S_getWalletAddress]"
    using absent b by blast
  moreover have "Enter S_initializeTCWSession \<notin>
       set (new_events fresh_world
              (snd (performTCWWorldAuth demo_env_sign_error (Some demo_tcw) fresh_world)))"
    using refused c by blast
  ultimately show ?thesis by blast
qed

section \<open>What a successful session holds\<close>

lemma generateSiweWithTCW_success:
  assumes "generateSiweWithTCW en tcw a w = (Inr m, w')"
  shows "\<exists>t cfg. tcw = Some t \<and> generateSiweMessage t a cfg = Inr m
           \<and> CallGenerateSiweMessage a cfg \<in> set (new_events w w')"
  using assms
  by (auto simp: generateSiweWithTCW_def run_stage_def generateSiweWithTCW_try_def randomId_def
        math_random36_def date_now_def Let_def new_events_def siweMessageConfig_def
      split: option.splits if_splits sum.splits prod.splits)

lemma signSiweWithWorld_success:
  assumes "signSiweWithWorld en rendered w = (Inr sr, w')"
  shows "\<exists>req. wa_statement req = rendered
           \<and> walletAuth en req = Inr (PayloadSuccess (signature sr))
           \<and> CallWalletAuth req (Inr (PayloadSuccess (signature sr))) \<in> set (new_events w w')"
  using assms
  by (auto simp: signSiweWithWorld_def run_stage_def signSiweWithWorld_try_def
        call_isInstalled_def crypto_randomUUID_def date_now_def Let_def new_events_def
      split: option.splits if_splits sum.splits prod.splits final_payload.splits)

lemma initializeTCWSession_success:
  assumes "fst (initializeTCWSession en tcw m sg w) = Inr s"
  shows "auth_address s = msg_address m \<and> auth_signature s = sg
           \<and> prepareMessage m (render_calls w) = Inr (auth_message s)"
  using assms
  by (auto simp: initializeTCWSession_def run_stage_def initializeTCWSession_try_def
        date_now_def call_prepareMessage_def emit_def Let_def
      split: sum.splits prod.splits)

text \<open>Only \<open>prepareMessage()\<close> moves the count of renderings.\<close>

lemma getWalletAddress_render_calls:
  "render_calls (snd (getWalletAddress en w)) = render_calls w"
  by (auto simp: getWalletAddress_def run_stage_def getWalletAddress_try_def
        call_isInstalled_def emit_def Let_def
      split: option.splits sum.splits)

lemma generateSiweWithTCW_render_calls:
  "render_calls (snd (generateSiweWithTCW en tcw a w)) = render_calls w"
  by (auto simp: generateSiweWithTCW_def run_stage_def generateSiweWithTCW_try_def randomId_def
        math_random36_def date_now_def siweMessageConfig_def emit_def Let_def
      split: option.splits sum.splits)

lemma signSiweWithWorld_render_calls:
  "render_calls (snd (signSiweWithWorld en rendered w)) = render_calls w"
  by (auto simp: signSiweWithWorld_def run_stage_def signSiweWithWorld_try_def
        call_isInstalled_def crypto_randomUUID_def date_now_def emit_def Let_def
      split: option.splits sum.splits final_payload.splits)

lemma performTCWWorldAuth_success_cases:
  assumes "fst (performTCWWorldAuth en tcw w) = Inr s"
  obtains loc a w1 m w2 rendered w3 sr w4 where
    "window en = Some loc"
    "getWalletAddress en w = (Inr a, w1)"
    "generateSiweWithTCW en tcw a w1 = (Inr m, w2)"
    "call_prepareMessage m w2 = (Inr rendered, w3)"
    "signSiweWithWorld en rendered w3 = (Inr sr, w4)"
    "performTCWWorldAuth en tcw w = initializeTCWSession en tcw m (signature sr) w4"
    "fst (initializeTCWSession en tcw m (signature sr) w4) = Inr s"
  using assms
  by (auto simp: performTCWWorldAuth_def performTCWWorldAuth_try_def
      split: option.splits prod.splits sum.splits)

text \<open>
  C2, as stated, fails on the code. The first half holds, the conclusion drawn from it
  does not: \<open>performTCWWorldAuth\<close> calls \<open>prepareMessage()\<close> for the text it hands to
  \<open>signSiweWithWorld\<close>, and \<open>initializeTCWSession\<close> calls it again for the session's
  message. With a message that renders \<open>T1\<close> at the first call and \<open>T2\<close> at the second,
  and a wallet whose signature names the text it signed, the run succeeds with a session
  whose message is \<open>T2\<close> and whose signature is the one over \<open>T1\<close>; the wallet's
  signature over \<open>T2\<close> is another one.
\<close>

theorem session_message_differs_from_signed_text:
  "fst (performTCWWorldAuth text_signing_env (Some two_text_tcw) fresh_world) =
     Inr \<lparr>auth_address = demo_address, auth_signature = ''sig:T1'', auth_message = ''T2'',
          tcwSession = \<lparr>initialized = True, ph_address = demo_address,
                         timestamp = 1700000000004\<rparr>\<rparr>
   \<and> wallet_auth_calls
       (new_events fresh_world
          (snd (performTCWWorldAuth text_signing_env (Some two_text_tcw) fresh_world))) =
       [(demo_request\<lparr>wa_statement := ''T1''\<rparr>, Inr (PayloadSuccess ''sig:T1''))]
   \<and> walletAuth text_signing_env (demo_request\<lparr>wa_statement := ''T2''\<rparr>) =
       Inr (PayloadSuccess ''sig:T2'')"
  by (simp add: stage_unfolds demo_unfolds)

text \<open>
  C2, amended. A successful \<open>initializeTCWSession\<close> returns a session whose address is
  the message's address, whose signature is the one passed in and whose message is what
  its own call of \<open>prepareMessage()\<close> returned. Hence a successful
  \<open>performTCWWorldAuth\<close> returns a session whose address is the address of the message
  the session layer generated in this run, whose message is that message's second
  rendering, and whose signature is the one the host wallet returned in this run for the
  request that carried the message's first rendering; the signature is over exactly the
  session's message whenever the two renderings are the same.
\<close>

theorem performTCWWorldAuth_session_fields:
  "(fst (initializeTCWSession en tcw m sg w) = Inr s \<longrightarrow>
      auth_address s = msg_address m \<and> auth_signature s = sg
      \<and> prepareMessage m (render_calls w) = Inr (auth_message s))
   \<and> (fst (performTCWWorldAuth en tcw w) = Inr s' \<longrightarrow>
        (\<exists>t a cfg m' req signed.
            tcw = Some t
          \<and> CallGenerateSiweMessage a cfg \<in> set (new_events w (snd (performTCWWorldAuth en tcw w)))
          \<and> generateSiweMessage t a cfg = Inr m'
          \<and> auth_address s' = msg_address m'
          \<and> prepareMessage m' (render_calls w) = Inr signed
          \<and> prepareMessage m' (Suc (render_calls w)) = Inr (auth_message s')
          \<and> CallWalletAuth req (Inr (PayloadSuccess (auth_signature s')))
               \<in> set (new_events w (snd (performTCWWorldAuth en tcw w)))
          \<and> walletAuth en req = Inr (PayloadSuccess (auth_signature s'))
          \<and> wa_statement req = signed
          \<and> (prepareMessage m' (Suc (render_calls w)) = prepareMessage m' (render_calls w) \<longrightarrow>
                wa_statement req = auth_message s')))"
proof (rule conjI; rule impI)
  assume "fst (initializeTCWSession en tcw m sg w) = Inr s"
  then show "auth_address s = msg_address m \<and> auth_signature s = sg
      \<and> prepareMessage m (render_calls w) = Inr (auth_message s)"
    by (rule initializeTCWSession_success)
next
  assume ok: "fst (performTCWWorldAuth en tcw w) = Inr s'"
  then obtain loc a w1 m' w2 rendered w3 sr w4 where run:
    "window en = Some loc"
    "getWalletAddress en w = (Inr a, w1)"
    "generateSiweWithTCW en tcw a w1 = (Inr m', w2)"
    "call_prepareMessage m' w2 = (Inr rendered, w3)"
    "signSiweWithWorld en rendered w3 = (Inr sr, w4)"
    "performTCWWorldAuth en tcw w = initializeTCWSession en tcw m' (signature sr) w4"
    "fst (initializeTCWSession en tcw m' (signature sr) w4) = Inr s'"
    by (rule performTCWWorldAuth_success_cases)
  let ?w5 = "snd (performTCWWorldAuth en tcw w)"
  have k2: "render_calls w2 = render_calls w"
    using getWalletAddress_render_calls [of en w]
      generateSiweWithTCW_render_calls [of en tcw a w1] run(2,3) by simp
  have first: "prepareMessage m' (render_calls w) = Inr rendered"
    and k3: "render_calls w3 = Suc (render_calls w)" and t3: "trace w3 = trace w2"
    using run(4) k2 by (auto simp: call_prepareMessage_def)
  have k4: "render_calls w4 = Suc (render_calls w)"
    using signSiweWithWorld_render_calls [of en rendered w3] run(5) k3 by simp
  obtain e1 where x1: "trace w1 = trace w @ e1"
    using getWalletAddress_extends [of en w] run(2) by auto
  obtain e2 where x2: "trace w2 = trace w1 @ e2"
    using generateSiweWithTCW_extends [of en tcw a w1] run(3) by auto
  obtain e3 where x3: "trace w4 = trace w3 @ e3"
    using signSiweWithWorld_extends [of en rendered w3] run(5) by auto
  obtain e4 where x4: "trace ?w5 = trace w4 @ e4"
    using initializeTCWSession_extends [of en tcw m' "signature sr" w4] run(6) by auto
  have ev: "new_events w ?w5 = e1 @ e2 @ e3 @ e4"
    using x1 x2 x3 x4 t3 by (simp add: new_events_def)
  have n2: "new_events w1 w2 = e2" and n3: "new_events w3 w4 = e3"
    using x2 x3 by (simp_all add: new_events_def)
  obtain t cfg where gen: "tcw = Some t" "generateSiweMessage t a cfg = Inr m'"
    "CallGenerateSiweMessage a cfg \<in> set e2"
    using generateSiweWithTCW_success [OF run(3)] n2 by auto
  obtain req where sg: "wa_statement req = rendered"
    "walletAuth en req = Inr (PayloadSuccess (signature sr))"
    "CallWalletAuth req (Inr (PayloadSuccess (signature sr))) \<in> set e3"
    using signSiweWithWorld_success [OF run(5)] n3 by auto
  have fields: "auth_address s' = msg_address m'" "auth_signature s' = signature sr"
    "prepareMessage m' (Suc (render_calls w)) = Inr (auth_message s')"
    using initializeTCWSession_success [OF run(7)] k4 by auto
  have same: "prepareMessage m' (Suc (render_calls w)) = prepareMessage m' (render_calls w) \<longrightarrow>
      wa_statement req = auth_message s'"
    using first fields(3) sg(1) by simp
  show "\<exists>t a cfg m' req signed.
            tcw = Some t
          \<and> CallGenerateSiweMessage a cfg \<in> set (new_events w (snd (performTCWWorldAuth en tcw w)))
          \<and> generateSiweMessage t a cfg = Inr m'
          \<and> auth_address s' = msg_address m'
          \<and> prepareMessage m' (render_calls w) = Inr signed
          \<and> prepareMessage m' (Suc (render_calls w)) = Inr (auth_message s')
          \<and> CallWalletAuth req (Inr (PayloadSuccess (auth_signature s')))
               \<in> set (new_events w (snd (performTCWWorldAuth en tcw w)))
          \<and> walletAuth en req = Inr (PayloadSuccess (auth_signature s'))
          \<and> wa_statement req = signed
          \<and> (prepareMessage m' (Suc (render_calls w)) = prepareMessage m' (render_calls w) \<longrightarrow>
                wa_statement req = auth_message s')"
    using gen sg fields ev first same
    by (intro exI [of _ t] exI [of _ a] exI [of _ cfg] exI [of _ m'] exI [of _ req]
          exI [of _ rendered]) simp
qed

theorem performTCWWorldAuth_session_fields_witness:
  "fst (initializeTCWSession demo_env (Some demo_tcw) (demo_message (Inr ''T'') demo_address)
          ''0xsig'' fresh_world) = Inr (demo_session 1700000000000)
   \<and> auth_address (demo_session 1700000000000) = demo_address
   \<and> fst (performTCWWorldAuth demo_env (Some demo_tcw) fresh_world) =
       Inr (demo_session 1700000000004)
   \<and> (\<exists>req. CallWalletAuth req (Inr (PayloadSuccess ''0xsig''))
          \<in> set (new_events fresh_world
                   (snd (performTCWWorldAuth demo_env (Some demo_tcw) fresh_world)))
        \<and> walletAuth demo_env req = Inr (PayloadSuccess ''0xsig'')
        \<and> wa_statement req = ''T'')"
proof -
  have a: "fst (initializeTCWSession demo_env (Some demo_tcw)
             (demo_message (Inr ''T'') demo_address) ''0xsig'' fresh_world) =
           Inr (demo_session 1700000000000)"
    by (simp add: stage_unfolds demo_unfolds)
  have b: "fst (performTCWWorldAuth demo_env (Some demo_tcw) fresh_world) =
      Inr (demo_session 1700000000004)"
    by (simp add: demo_pipeline_result)
  note bound = performTCWWorldAuth_session_fields
      [where en = demo_env and tcw = "Some demo_tcw"
         and m = "demo_message (Inr ''T'') demo_address" and sg = "''0xsig''"
         and w = fresh_world and s = "demo_session 1700000000000"
         and s' = "demo_session 1700000000004"]
  have "auth_address (demo_session 1700000000000) =
      msg_address (demo_message (Inr ''T'') demo_address)"
    using bound a by blast
  then have c: "auth_address (demo_session 1700000000000) = demo_address"
    by (simp add: demo_message_def)
  obtain t a' cfg m' req where d:
    "Some demo_tcw = Some t"
    "generateSiweMessage t a' cfg = Inr m'"
    "CallWalletAuth req (Inr (PayloadSuccess (auth_signature (demo_session 1700000000004))))
       \<in> set (new_events fresh_world
                (snd (performTCWWorldAuth demo_env (Some demo_tcw) fresh_world)))"
    "walletAuth demo_env req = Inr (PayloadSuccess (auth_signature (demo_session 1700000000004)))"
    "prepareMessage m' (Suc (render_calls fresh_world)) = prepareMessage m' (render_calls fresh_world)
       \<longrightarrow> wa_statement req = auth_message (demo_session 1700000000004)"
    using bound b by blast
  have "m' = demo_message (Inr ''T'') a'"
    using d(1,2) by (auto simp: demo_tcw_def)
  then have "wa_statement req = auth_message (demo_session 1700000000004)"
    using d(5) by (simp add: demo_message_def)
  then have "\<exists>req. CallWalletAuth req (Inr (PayloadSuccess ''0xsig''))
          \<in> set (new_events fresh_world
                   (snd (performTCWWorldAuth demo_env (Some demo_tcw) fresh_world)))
        \<and> walletAuth demo_env req = Inr (PayloadSuccess ''0xsig'')
        \<and> wa_statement req = ''T''"
    using d(3,4) by (intro exI [of _ req]) (simp add: demo_session_def)
  then show ?thesis using a b c by blast
qed

section \<open>The address check of generateSiweWithTCW\<close>

lemma address_rejected_iff:
  "address_rejected a \<longleftrightarrow> a = [] \<or> take 2 a \<noteq> ''0x'' \<or> length a \<noteq> 42"
  by (simp add: address_rejected_def startsWith_def numeral_2_eq_2)

text \<open>
  C3, as stated, fails on the code. The address \<open>0x\<close> followed by 40 letters \<open>z\<close> is not
  in the required format (its characters after the prefix are not hexadecimal), yet with a
  non-null session context \<open>generateSiweWithTCW\<close> does not fail: the address passes the
  check, \<open>generateSiweMessage\<close> is called with it, and the message it returns is returned.
\<close>

theorem nonhex_address_reaches_session_layer:
  "\<not> spec_address_format nonhex_address
   \<and> fst (generateSiweWithTCW demo_env (Some demo_tcw) nonhex_address fresh_world) =
       Inr (demo_message (Inr ''T'') nonhex_address)
   \<and> session_layer_calls
        (new_events fresh_world
           (snd (generateSiweWithTCW demo_env (Some demo_tcw) nonhex_address fresh_world))) =
       [(nonhex_address, demo_config)]"
  by (simp add: stage_unfolds demo_unfolds spec_address_format_def is_hex_digit_def)

text \<open>
  C3, amended. For every address string that is empty, does not start with \<open>0x\<close>, or whose
  length is not 42, \<open>generateSiweWithTCW\<close> with a non-null session context fails with the
  code \<open>INVALID_ADDRESS\<close> and the session layer's \<open>generateSiweMessage\<close> is never
  called. The characters after the prefix are not examined.
\<close>

theorem generateSiweWithTCW_rejects_bad_shape:
  assumes "a = [] \<or> take 2 a \<noteq> ''0x'' \<or> length a \<noteq> 42" and "tcw = Some t"
  shows "fst (generateSiweWithTCW en tcw a w) =
           Inl (TCWAuthError ''Invalid Ethereum address format'' ''INVALID_ADDRESS'' None)
         \<and> session_layer_calls (new_events w (snd (generateSiweWithTCW en tcw a w))) = []"
  using assms
  by (simp add: generateSiweWithTCW_def run_stage_def generateSiweWithTCW_try_def new_events_def
        address_rejected_iff)

theorem generateSiweWithTCW_rejects_bad_shape_witness:
  "fst (generateSiweWithTCW demo_env (Some demo_tcw) [] fresh_world) =
     Inl (TCWAuthError ''Invalid Ethereum address format'' ''INVALID_ADDRESS'' None)
   \<and> session_layer_calls
        (new_events fresh_world (snd (generateSiweWithTCW demo_env (Some demo_tcw) [] fresh_world)))
       = []
   \<and> take 2 wrong_prefix_address \<noteq> ''0x''
   \<and> fst (generateSiweWithTCW demo_env (Some demo_tcw) wrong_prefix_address fresh_world) =
     Inl (TCWAuthError ''Invalid Ethereum address format'' ''INVALID_ADDRESS'' None)
   \<and> length ''0xAbC123'' \<noteq> 42
   \<and> fst (generateSiweWithTCW demo_env (Some demo_tcw) ''0xAbC123'' fresh_world) =
     Inl (TCWAuthError ''Invalid Ethereum address format'' ''INVALID_ADDRESS'' None)"
proof -
  have p: "take 2 wrong_prefix_address \<noteq> ''0x''"
    by (simp add: wrong_prefix_address_def)
  have l: "length ''0xAbC123'' \<noteq> 42"
    by simp
  show ?thesis
    using p l
      generateSiweWithTCW_rejects_bad_shape
        [of "[]" "Some demo_tcw" demo_tcw demo_env fresh_world]
      generateSiweWithTCW_rejects_bad_shape
        [of wrong_prefix_address "Some demo_tcw" demo_tcw demo_env fresh_world]
      generateSiweWithTCW_rejects_bad_shape
        [of "''0xAbC123''" "Some demo_tcw" demo_tcw demo_env fresh_world]
    by blast
qed

section \<open>The error codes of signSiweWithWorld\<close>

text \<open>
  C4, as stated, fails on the code. A signing request the host wallet answers with the
  error status and a signing request during which \<open>walletAuth\<close> throws surface with one
  and the same code, \<open>WORLD_SIGN_ERROR\<close>.
\<close>

theorem signing_status_error_and_exception_share_code:
  "failure_code (fst (signSiweWithWorld demo_env_sign_error ''T'' fresh_world)) =
     Some ''WORLD_SIGN_ERROR''
   \<and> failure_code (fst (signSiweWithWorld demo_env_sign_throws ''T'' fresh_world)) =
     Some ''WORLD_SIGN_ERROR''"
  by (simp add: stage_unfolds demo_unfolds failure_code_def)

text \<open>
  C4, amended. \<open>signSiweWithWorld\<close> reports an uninstalled host integration with the code
  \<open>MINIKIT_NOT_INSTALLED\<close>, which is distinct from the code of the other two failure
  modes. An error status of the host wallet and an unexpected exception during signing
  both carry the code \<open>WORLD_SIGN_ERROR\<close>; they differ in the message (\<open>Failed to sign
  message with World\<close> against \<open>Failed to sign SIWE message with World\<close>) and in that
  only the second has a cause, the exception itself.
\<close>

theorem signSiweWithWorld_failure_codes:
  "(isInstalled en (installed_calls w) = Inr False \<longrightarrow>
      fst (signSiweWithWorld en m w) =
        Inl (TCWAuthError ''MiniKit is not installed'' ''MINIKIT_NOT_INSTALLED'' None))
   \<and> (CallWalletAuth req (Inr PayloadError) \<in> set (new_events w (snd (signSiweWithWorld en m w)))
        \<longrightarrow>
      fst (signSiweWithWorld en m w) =
        Inl (TCWAuthError ''Failed to sign message with World'' ''WORLD_SIGN_ERROR'' None))
   \<and> (fst (signSiweWithWorld_try en m (emit (Enter S_signSiweWithWorld) w)) = Inl (JSError d)
        \<longrightarrow>
      fst (signSiweWithWorld en m w) =
        Inl (TCWAuthError ''Failed to sign SIWE message with World'' ''WORLD_SIGN_ERROR''
               (Some (JSError d))))"
proof (intro conjI impI)
  assume "isInstalled en (installed_calls w) = Inr False"
  then show "fst (signSiweWithWorld en m w) =
        Inl (TCWAuthError ''MiniKit is not installed'' ''MINIKIT_NOT_INSTALLED'' None)"
    by (simp add: signSiweWithWorld_def run_stage_def signSiweWithWorld_try_def
          call_isInstalled_def emit_def)
next
  assume "CallWalletAuth req (Inr PayloadError)
            \<in> set (new_events w (snd (signSiweWithWorld en m w)))"
  then show "fst (signSiweWithWorld en m w) =
        Inl (TCWAuthError ''Failed to sign message with World'' ''WORLD_SIGN_ERROR'' None)"
    by (auto simp: signSiweWithWorld_def run_stage_def signSiweWithWorld_try_def
          call_isInstalled_def crypto_randomUUID_def date_now_def Let_def new_events_def
        split: option.splits if_splits sum.splits prod.splits final_payload.splits)
next
  assume "fst (signSiweWithWorld_try en m (emit (Enter S_signSiweWithWorld) w)) = Inl (JSError d)"
  then show "fst (signSiweWithWorld en m w) =
        Inl (TCWAuthError ''Failed to sign SIWE message with World'' ''WORLD_SIGN_ERROR''
               (Some (JSError d)))"
    by (simp add: signSiweWithWorld_def fst_run_stage_Inl)
qed

theorem signSiweWithWorld_failure_codes_witness:
  "fst (signSiweWithWorld demo_env_not_installed ''T'' fresh_world) =
     Inl (TCWAuthError ''MiniKit is not installed'' ''MINIKIT_NOT_INSTALLED'' None)
   \<and> fst (signSiweWithWorld demo_env_sign_error ''T'' fresh_world) =
     Inl (TCWAuthError ''Failed to sign message with World'' ''WORLD_SIGN_ERROR'' None)
   \<and> fst (signSiweWithWorld demo_env_sign_throws ''T'' fresh_world) =
     Inl (TCWAuthError ''Failed to sign SIWE message with World'' ''WORLD_SIGN_ERROR''
            (Some (JSError ''walletAuth rejected'')))"
proof -
  have a: "isInstalled demo_env_not_installed (installed_calls fresh_world) = Inr False"
    by (simp add: demo_unfolds)
  have b: "CallWalletAuth
             \<lparr>wa_nonce = ''3f2a9c1e-7b4d-4e8a-9c0f-5d6e7f8a9b0c'', wa_requestId = ''tcw-auth'',
              wa_expirationTime = 1700086400000, wa_notBefore = 1699999940001,
              wa_statement = ''T''\<rparr> (Inr PayloadError)
           \<in> set (new_events fresh_world
                    (snd (signSiweWithWorld demo_env_sign_error ''T'' fresh_world)))"
    by (simp add: stage_unfolds demo_unfolds)
  have c: "fst (signSiweWithWorld_try demo_env_sign_throws ''T''
                 (emit (Enter S_signSiweWithWorld) fresh_world)) =
             Inl (JSError ''walletAuth rejected'')"
    by (simp add: stage_unfolds demo_unfolds)
  show ?thesis
    using a b c
      signSiweWithWorld_failure_codes [where en = demo_env_not_installed and w = fresh_world]
      signSiweWithWorld_failure_codes [where en = demo_env_sign_error and w = fresh_world]
      signSiweWithWorld_failure_codes [where en = demo_env_sign_throws and w = fresh_world]
    by blast
qed

section \<open>Already classified errors at the catch blocks\<close>

text \<open>
  C5, as stated, fails on the code. A \<open>TCWAuthError\<close> with the code \<open>INVALID_ADDRESS\<close>
  thrown by \<open>prepareMessage()\<close> inside \<open>initializeTCWSession\<close> reaches the caller
  wrapped in a new error with the code \<open>TCW_SESSION_INIT_ERROR\<close> and another message.
\<close>

theorem initializeTCWSession_rewraps_classified_error:
  "fst (initializeTCWSession_try demo_env (Some demo_tcw) unrenderable_message ''0xsig''
          (emit (Enter S_initializeTCWSession) fresh_world)) =
     Inl (TCWAuthError ''render refused'' ''INVALID_ADDRESS'' None)
   \<and> fst (initializeTCWSession demo_env (Some demo_tcw) unrenderable_message ''0xsig'' fresh_world) =
     Inl (TCWAuthError ''Failed to initialize TCW session'' ''TCW_SESSION_INIT_ERROR''
            (Some (TCWAuthError ''render refused'' ''INVALID_ADDRESS'' None)))
   \<and> failure_code
       (fst (initializeTCWSession demo_env (Some demo_tcw) unrenderable_message ''0xsig''
              fresh_world)) \<noteq> Some ''INVALID_ADDRESS''"
  by (simp add: stage_unfolds demo_unfolds failure_code_def)

text \<open>
  C5, amended. A \<open>TCWAuthError\<close> raised inside the try block of \<open>getWalletAddress\<close>,
  \<open>generateSiweWithTCW\<close>, \<open>signSiweWithWorld\<close> or \<open>performTCWWorldAuth\<close> reaches that
  function's caller as the same error: same message, same code, same cause.
  \<open>initializeTCWSession\<close> wraps every error raised inside it, classified or not, in a
  new \<open>TCWAuthError\<close> with the code \<open>TCW_SESSION_INIT_ERROR\<close> and the original as its
  cause.
\<close>

theorem classified_error_passes_all_but_initializeTCWSession:
  "(is_TCWAuthError e \<longrightarrow>
      (fst (getWalletAddress_try en (emit (Enter S_getWalletAddress) w)) = Inl e \<longrightarrow>
         fst (getWalletAddress en w) = Inl e)
    \<and> (fst (generateSiweWithTCW_try en tcw a (emit (Enter S_generateSiweWithTCW) w)) = Inl e \<longrightarrow>
         fst (generateSiweWithTCW en tcw a w) = Inl e)
    \<and> (fst (signSiweWithWorld_try en rendered (emit (Enter S_signSiweWithWorld) w)) = Inl e \<longrightarrow>
         fst (signSiweWithWorld en rendered w) = Inl e)
    \<and> (fst (performTCWWorldAuth_try en tcw w) = Inl e \<longrightarrow>
         fst (performTCWWorldAuth en tcw w) = Inl e))
   \<and> (fst (initializeTCWSession_try en tcw m sg (emit (Enter S_initializeTCWSession) w)) = Inl e \<longrightarrow>
        fst (initializeTCWSession en tcw m sg w) =
          Inl (TCWAuthError ''Failed to initialize TCW session'' ''TCW_SESSION_INIT_ERROR''
                 (Some e)))"
proof -
  have keep: "\<And>msg c. is_TCWAuthError e \<Longrightarrow> rethrow_or_wrap msg c e = e"
    by (cases e) simp_all
  have orch: "fst (performTCWWorldAuth_try en tcw w) = Inl e \<Longrightarrow>
      fst (performTCWWorldAuth en tcw w) =
        Inl (rethrow_or_wrap ''TCW + World authentication flow failed'' ''AUTH_FLOW_ERROR'' e)"
    by (cases "performTCWWorldAuth_try en tcw w") (simp add: performTCWWorldAuth_def)
  show ?thesis
    using keep orch
    by (auto simp: getWalletAddress_def generateSiweWithTCW_def signSiweWithWorld_def
          initializeTCWSession_def always_wrap_def fst_run_stage_Inl)
qed

theorem classified_error_passes_all_but_initializeTCWSession_witness:
  "fst (getWalletAddress demo_env_not_installed fresh_world) =
     Inl (TCWAuthError ''MiniKit is not installed'' ''MINIKIT_NOT_INSTALLED'' None)
   \<and> fst (performTCWWorldAuth demo_env_not_installed (Some demo_tcw) fresh_world) =
     Inl (TCWAuthError ''MiniKit is not installed'' ''MINIKIT_NOT_INSTALLED'' None)
   \<and> fst (initializeTCWSession demo_env (Some demo_tcw) unrenderable_message ''0xsig'' fresh_world) =
     Inl (TCWAuthError ''Failed to initialize TCW session'' ''TCW_SESSION_INIT_ERROR''
            (Some (TCWAuthError ''render refused'' ''INVALID_ADDRESS'' None)))"
proof -
  let ?absent = "TCWAuthError ''MiniKit is not installed'' ''MINIKIT_NOT_INSTALLED'' None"
  let ?refused = "TCWAuthError ''render refused'' ''INVALID_ADDRESS'' None"
  have a: "is_TCWAuthError ?absent"
    by simp
  have b: "fst (getWalletAddress_try demo_env_not_installed
                 (emit (Enter S_getWalletAddress) fresh_world)) = Inl ?absent"
    by (simp add: stage_unfolds demo_unfolds)
  have c: "fst (performTCWWorldAuth_try demo_env_not_installed (Some demo_tcw) fresh_world) =
      Inl ?absent"
    by (simp add: stage_unfolds demo_unfolds)
  have d: "fst (initializeTCWSession_try demo_env (Some demo_tcw) unrenderable_message ''0xsig''
                 (emit (Enter S_initializeTCWSession) fresh_world)) = Inl ?refused"
    by (simp add: stage_unfolds demo_unfolds)
  show ?thesis
    using a b c d
      classified_error_passes_all_but_initializeTCWSession
        [where e = ?absent and en = demo_env_not_installed and w = fresh_world
           and tcw = "Some demo_tcw"]
      classified_error_passes_all_but_initializeTCWSession
        [where e = ?refused and en = demo_env and w = fresh_world and tcw = "Some demo_tcw"
           and m = unrenderable_message and sg = "''0xsig''"]
    by blast
qed

section \<open>The order of the preconditions of generateSiweWithTCW\<close>

text \<open>
  C6. \<open>generateSiweWithTCW\<close> tests its preconditions in a fixed order and the first one
  violated decides the error: a falsy session context gives \<open>TCW_NOT_INITIALIZED\<close>
  whatever the address and the execution context; with a session context, a rejected
  address gives \<open>INVALID_ADDRESS\<close> whatever the execution context; with both in order,
  an absent \<open>window\<close> gives \<open>NOT_BROWSER_ENVIRONMENT\<close>. In all three cases nothing
  leaves the module between the function's entry and its failure.
\<close>

theorem generateSiweWithTCW_precondition_order:
  "(tcw = None \<longrightarrow>
      fst (generateSiweWithTCW en tcw a w) =
        Inl (TCWAuthError ''TCW instance is not available'' ''TCW_NOT_INITIALIZED'' None))
   \<and> (tcw \<noteq> None \<and> address_rejected a \<longrightarrow>
      fst (generateSiweWithTCW en tcw a w) =
        Inl (TCWAuthError ''Invalid Ethereum address format'' ''INVALID_ADDRESS'' None))
   \<and> (tcw \<noteq> None \<and> \<not> address_rejected a \<and> window en = None \<longrightarrow>
      fst (generateSiweWithTCW en tcw a w) =
        Inl (TCWAuthError ''TCW authentication must be called in browser environment''
               ''NOT_BROWSER_ENVIRONMENT'' None))
   \<and> (tcw = None \<or> address_rejected a \<or> window en = None \<longrightarrow>
      new_events w (snd (generateSiweWithTCW en tcw a w)) =
        [Enter S_generateSiweWithTCW, Raise S_generateSiweWithTCW])"
  by (auto simp: generateSiweWithTCW_def run_stage_def generateSiweWithTCW_try_def new_events_def
      split: option.splits)

theorem generateSiweWithTCW_precondition_order_witness:
  "address_rejected ''not-an-address''
   \<and> fst (generateSiweWithTCW demo_env_no_window None ''not-an-address'' fresh_world) =
       Inl (TCWAuthError ''TCW instance is not available'' ''TCW_NOT_INITIALIZED'' None)
   \<and> fst (generateSiweWithTCW demo_env_no_window (Some demo_tcw) ''not-an-address'' fresh_world) =
       Inl (TCWAuthError ''Invalid Ethereum address format'' ''INVALID_ADDRESS'' None)
   \<and> fst (generateSiweWithTCW demo_env_no_window (Some demo_tcw) demo_address fresh_world) =
       Inl (TCWAuthError ''TCW authentication must be called in browser environment''
              ''NOT_BROWSER_ENVIRONMENT'' None)
   \<and> new_events fresh_world
       (snd (generateSiweWithTCW demo_env_no_window (Some demo_tcw) demo_address fresh_world)) =
       [Enter S_generateSiweWithTCW, Raise S_generateSiweWithTCW]"
proof -
  have a: "address_rejected ''not-an-address''"
    by (simp add: address_rejected_def startsWith_def)
  have b: "\<not> address_rejected demo_address"
    by (simp add: address_rejected_def startsWith_def demo_address_def)
  have c: "window demo_env_no_window = None"
    by (simp add: demo_unfolds)
  have d: "Some demo_tcw \<noteq> None"
    by simp
  show ?thesis
    using a b c d
      generateSiweWithTCW_precondition_order
        [of None demo_env_no_window "''not-an-address''" fresh_world]
      generateSiweWithTCW_precondition_order
        [of "Some demo_tcw" demo_env_no_window "''not-an-address''" fresh_world]
      generateSiweWithTCW_precondition_order
        [of "Some demo_tcw" demo_env_no_window demo_address fresh_world]
    by blast
qed

section \<open>The up-front execution-context check\<close>

text \<open>
  C7. When the global \<open>window\<close> is absent, \<open>performTCWWorldAuth\<close> fails with the code
  \<open>NOT_BROWSER_ENVIRONMENT\<close> before anything else happens: the world is returned as it
  was found, so none of the four stage functions is entered and no call leaves the module.
\<close>

theorem performTCWWorldAuth_no_window:
  assumes "window en = None"
  shows "performTCWWorldAuth en tcw w =
           (Inl (TCWAuthError
                   ''TCW + World authentication can only be performed in browser environment''
                   ''NOT_BROWSER_ENVIRONMENT'' None), w)
         \<and> new_events w (snd (performTCWWorldAuth en tcw w)) = []
         \<and> stage_entries (new_events w (snd (performTCWWorldAuth en tcw w))) = []"
  using assms by (simp add: performTCWWorldAuth_def performTCWWorldAuth_try_def new_events_def)

theorem performTCWWorldAuth_no_window_witness:
  "window demo_env_no_window = None
   \<and> performTCWWorldAuth demo_env_no_window (Some demo_tcw) fresh_world =
       (Inl (TCWAuthError
               ''TCW + World authentication can only be performed in browser environment''
               ''NOT_BROWSER_ENVIRONMENT'' None), fresh_world)
   \<and> stage_entries
       (new_events fresh_world
          (snd (performTCWWorldAuth demo_env_no_window (Some demo_tcw) fresh_world))) = []"
proof -
  have a: "window demo_env_no_window = None"
    by (simp add: demo_unfolds)
  show ?thesis
    using a performTCWWorldAuth_no_window [OF a, of "Some demo_tcw" fresh_world] by blast
qed

section \<open>The configuration handed to the session layer\<close>

text \<open>
  C8, as stated, fails on the code. There is no single generation time: the clock is read
  once for the expiration time and once more for the not-before time. With a clock that
  advances by a millisecond between the two readings, the configuration handed to
  \<open>generateSiweMessage\<close> is the expiration time of one instant and the not-before time
  of the next, and no \<open>t\<close> gives both. And not every time will do: with the clock at
  the last instant a \<open>Date\<close> can hold, the expiration time is out of range,
  \<open>toISOString()\<close> throws, and \<open>generateSiweWithTCW\<close> fails with
  \<open>SIWE_GENERATION_ERROR\<close> without calling the session layer.
\<close>

theorem clock_readings_are_not_one_generation_time:
  "session_layer_calls
     (new_events fresh_world
        (snd (generateSiweWithTCW demo_env (Some demo_tcw) demo_address fresh_world))) =
     [(demo_address, demo_config)]
   \<and> \<not> (\<exists>t. cfg_expirationTime demo_config = toISOString demo_env (t + 86400000)
           \<and> cfg_notBefore demo_config = toISOString demo_env (t - 60000))
   \<and> fst (generateSiweWithTCW late_clock_env (Some demo_tcw) demo_address fresh_world) =
       Inl (TCWAuthError ''Failed to generate SIWE message with TCW'' ''SIWE_GENERATION_ERROR''
              (Some (JSError ''RangeError: Invalid time value'')))
   \<and> session_layer_calls
       (new_events fresh_world
          (snd (generateSiweWithTCW late_clock_env (Some demo_tcw) demo_address fresh_world))) =
       []"
proof -
  have a: "session_layer_calls
     (new_events fresh_world
        (snd (generateSiweWithTCW demo_env (Some demo_tcw) demo_address fresh_world))) =
     [(demo_address, demo_config)]"
    by (simp add: stage_unfolds demo_unfolds)
  have b: "\<not> (\<exists>t. cfg_expirationTime demo_config = toISOString demo_env (t + 86400000)
           \<and> cfg_notBefore demo_config = toISOString demo_env (t - 60000))"
    by (auto simp: demo_config_def demo_env_def demo_iso_def split: if_splits)
  have c: "fst (generateSiweWithTCW late_clock_env (Some demo_tcw) demo_address fresh_world) =
       Inl (TCWAuthError ''Failed to generate SIWE message with TCW'' ''SIWE_GENERATION_ERROR''
              (Some (JSError ''RangeError: Invalid time value'')))"
    by (simp add: stage_unfolds demo_unfolds)
  have d: "session_layer_calls
       (new_events fresh_world
          (snd (generateSiweWithTCW late_clock_env (Some demo_tcw) demo_address fresh_world))) =
       []"
    by (simp add: stage_unfolds demo_unfolds)
  show ?thesis
    using a b c d by blast
qed

text \<open>
  C8, amended. For an accepted address, with a session context and a \<open>window\<close>, and with
  two consecutive clock readings \<open>t1\<close> and \<open>t2\<close> such that \<open>t1\<close> plus 24 hours and \<open>t2\<close>
  minus one minute are time values a \<open>Date\<close> can hold (at most 8.64e15 ms from the
  epoch), \<open>generateSiweWithTCW\<close> calls the session layer's \<open>generateSiweMessage\<close>
  exactly once, with that address and a configuration made of the fixed statement text,
  the host and origin of the current \<open>window.location\<close> as domain and uri, version \<open>1\<close>,
  chain id 1, the expiration time \<open>t1\<close> plus 24 hours (86400000 ms) and the not-before
  time \<open>t2\<close> minus one minute (60000 ms), both in ISO form. A message the session layer
  returns is returned unchanged. Where the two readings are one time \<open>t\<close>, the two
  fields are \<open>t\<close> plus 24 hours and \<open>t\<close> minus one minute.
\<close>

theorem generateSiweWithTCW_configuration:
  assumes "tcw = Some t" and "\<not> address_rejected a" and "window en = Some loc"
    and "\<bar>dateNow en (clock_reads w) + 86400000\<bar> \<le> 8640000000000000"
    and "\<bar>dateNow en (Suc (clock_reads w)) - 60000\<bar> \<le> 8640000000000000"
  shows "(let cfg = \<lparr>cfg_statement = ''Sign in to World Mini App with TinyCloud'',
                     cfg_domain = host loc,
                     cfg_uri = origin loc,
                     cfg_version = ''1'',
                     cfg_chainId = 1,
                     cfg_expirationTime = toISOString en (dateNow en (clock_reads w) + 86400000),
                     cfg_notBefore = toISOString en (dateNow en (Suc (clock_reads w)) - 60000)\<rparr>
          in session_layer_calls (new_events w (snd (generateSiweWithTCW en tcw a w))) = [(a, cfg)]
           \<and> (\<forall>m. generateSiweMessage t a cfg = Inr m \<longrightarrow>
                 fst (generateSiweWithTCW en tcw a w) = Inr m))"
  using assms
  by (auto simp: generateSiweWithTCW_def run_stage_def generateSiweWithTCW_try_def new_events_def
        randomId_def math_random36_def date_now_def Let_def siweMessageConfig_def emit_def
        date_toISOString_def
      split: option.splits sum.splits)

theorem generateSiweWithTCW_configuration_witness:
  "\<not> address_rejected demo_address
   \<and> window demo_env = Some demo_location
   \<and> \<bar>dateNow demo_env (clock_reads fresh_world) + 86400000\<bar> \<le> 8640000000000000
   \<and> \<bar>dateNow demo_env (Suc (clock_reads fresh_world)) - 60000\<bar> \<le> 8640000000000000
   \<and> session_layer_calls
       (new_events fresh_world
          (snd (generateSiweWithTCW demo_env (Some demo_tcw) demo_address fresh_world))) =
       [(demo_address, demo_config)]
   \<and> fst (generateSiweWithTCW demo_env (Some demo_tcw) demo_address fresh_world) =
       Inr (demo_message (Inr ''T'') demo_address)"
proof -
  have a: "\<not> address_rejected demo_address"
    by (simp add: address_rejected_def startsWith_def demo_address_def)
  have b: "window demo_env = Some demo_location"
    by (simp add: demo_env_def)
  have r1: "\<bar>dateNow demo_env (clock_reads fresh_world) + 86400000\<bar> \<le> 8640000000000000"
    and r2: "\<bar>dateNow demo_env (Suc (clock_reads fresh_world)) - 60000\<bar> \<le> 8640000000000000"
    by (simp_all add: demo_env_def fresh_world_def)
  have c: "\<lparr>cfg_statement = ''Sign in to World Mini App with TinyCloud'',
            cfg_domain = host demo_location,
            cfg_uri = origin demo_location,
            cfg_version = ''1'',
            cfg_chainId = 1,
            cfg_expirationTime =
              toISOString demo_env (dateNow demo_env (clock_reads fresh_world) + 86400000),
            cfg_notBefore =
              toISOString demo_env (dateNow demo_env (Suc (clock_reads fresh_world)) - 60000)\<rparr>
           = demo_config"
    by (simp add: demo_unfolds)
  have d: "generateSiweMessage demo_tcw demo_address demo_config =
      Inr (demo_message (Inr ''T'') demo_address)"
    by (simp add: demo_tcw_def)
  note cfg = generateSiweWithTCW_configuration
      [where tcw = "Some demo_tcw" and t = demo_tcw and w = fresh_world, OF refl a b r1 r2,
       unfolded Let_def c]
  show ?thesis
    using a b r1 r2 d cfg by blast
qed

section \<open>The random correlation token\<close>

text \<open>
  C9. The token \<open>randomId\<close> drawn inside \<open>generateSiweWithTCW\<close> has no influence on what
  the function does with the session layer or on what it returns: replacing both random
  sources (\<open>crypto.randomUUID\<close>, present or not, and \<open>Math.random\<close>) by any others, with
  the same session context, address, execution context and clock, leaves the calls made
  to \<open>generateSiweMessage\<close> (address and configuration) and the result unchanged.
\<close>

theorem generateSiweWithTCW_ignores_random_token:
  "fst (generateSiweWithTCW (en\<lparr>randomUUID := r, mathRandom36 := q\<rparr>) tcw a w) =
     fst (generateSiweWithTCW en tcw a w)
   \<and> session_layer_calls
        (new_events w
           (snd (generateSiweWithTCW (en\<lparr>randomUUID := r, mathRandom36 := q\<rparr>) tcw a w))) =
     session_layer_calls (new_events w (snd (generateSiweWithTCW en tcw a w)))"
  by (auto simp: generateSiweWithTCW_def run_stage_def generateSiweWithTCW_try_def new_events_def
        randomId_def math_random36_def date_now_def Let_def siweMessageConfig_def emit_def
        date_toISOString_def
      split: option.splits sum.splits)

theorem generateSiweWithTCW_ignores_random_token_witness:
  "fst (generateSiweWithTCW
          (demo_env\<lparr>randomUUID := None, mathRandom36 := (\<lambda>n. ''0.zzzzzzzzzzz'')\<rparr>)
          (Some demo_tcw) demo_address fresh_world) =
     Inr (demo_message (Inr ''T'') demo_address)
   \<and> session_layer_calls
       (new_events fresh_world
          (snd (generateSiweWithTCW
                  (demo_env\<lparr>randomUUID := None, mathRandom36 := (\<lambda>n. ''0.zzzzzzzzzzz'')\<rparr>)
                  (Some demo_tcw) demo_address fresh_world))) =
     [(demo_address, demo_config)]"
proof -
  have a: "fst (generateSiweWithTCW demo_env (Some demo_tcw) demo_address fresh_world) =
      Inr (demo_message (Inr ''T'') demo_address)"
    by (simp add: stage_unfolds demo_unfolds)
  have b: "session_layer_calls
       (new_events fresh_world
          (snd (generateSiweWithTCW demo_env (Some demo_tcw) demo_address fresh_world))) =
     [(demo_address, demo_config)]"
    by (simp add: stage_unfolds demo_unfolds)
  show ?thesis
    using a b
      generateSiweWithTCW_ignores_random_token
        [where en = demo_env and r = None and q = "\<lambda>n. ''0.zzzzzzzzzzz''"
           and tcw = "Some demo_tcw" and a = demo_address and w = fresh_world]
    by simp
qed

section \<open>The placeholder session\<close>

text \<open>
  C10. Whenever its call of \<open>prepareMessage()\<close> returns, \<open>initializeTCWSession\<close> succeeds, whatever
  the session context, the message and the signature: the result is the session built
  from the message's address, the signature and the rendered text, with a placeholder
  handle whose \<open>initialized\<close> is true and whose address is the message's address. The
  only call that leaves the module is one reading of the clock; the session layer is not
  consulted, and the result is the one obtained with no session context at all.
\<close>

theorem initializeTCWSession_placeholder_succeeds:
  assumes "prepareMessage m (render_calls w) = Inr rendered"
  shows "fst (initializeTCWSession en tcw m sg w) =
           Inr \<lparr>auth_address = msg_address m, auth_signature = sg, auth_message = rendered,
                tcwSession = \<lparr>initialized = True, ph_address = msg_address m,
                               timestamp = dateNow en (clock_reads w)\<rparr>\<rparr>
         \<and> new_events w (snd (initializeTCWSession en tcw m sg w)) =
             [Enter S_initializeTCWSession, CallDateNow, Return S_initializeTCWSession]
         \<and> session_layer_calls (new_events w (snd (initializeTCWSession en tcw m sg w))) = []
         \<and> initializeTCWSession en tcw m sg w = initializeTCWSession en None m sg w"
  using assms
  by (simp add: initializeTCWSession_def run_stage_def initializeTCWSession_try_def new_events_def
        date_now_def call_prepareMessage_def Let_def emit_def)

theorem initializeTCWSession_placeholder_succeeds_witness:
  "prepareMessage (demo_message (Inr ''T'') demo_address) (render_calls fresh_world) = Inr ''T''
   \<and> fst (initializeTCWSession demo_env (Some demo_tcw) (demo_message (Inr ''T'') demo_address)
            ''0xsig'' fresh_world) = Inr (demo_session 1700000000000)
   \<and> initialized (tcwSession (demo_session 1700000000000))
   \<and> ph_address (tcwSession (demo_session 1700000000000)) = demo_address"
proof -
  have a: "prepareMessage (demo_message (Inr ''T'') demo_address) (render_calls fresh_world) =
      Inr ''T''"
    by (simp add: demo_message_def)
  have b: "\<lparr>auth_address = msg_address (demo_message (Inr ''T'') demo_address),
            auth_signature = ''0xsig'', auth_message = ''T'',
            tcwSession = \<lparr>initialized = True,
                           ph_address = msg_address (demo_message (Inr ''T'') demo_address),
                           timestamp = dateNow demo_env (clock_reads fresh_world)\<rparr>\<rparr> =
           demo_session 1700000000000"
    by (simp add: demo_unfolds)
  have c: "initialized (tcwSession (demo_session 1700000000000))"
    "ph_address (tcwSession (demo_session 1700000000000)) = demo_address"
    by (simp_all add: demo_session_def)
  note ok = initializeTCWSession_placeholder_succeeds
      [where en = demo_env and tcw = "Some demo_tcw" and sg = "''0xsig''" and w = fresh_world,
       OF a, unfolded b]
  show ?thesis
    using a c ok by blast
qed

end
